theory Spec2Isabelle
  imports Main "HOL-Library.Word"
begin

section \<open>The V4L2 HDR shim: an interposed \<open>ioctl\<close> that patches colorspace metadata\<close>

text \<open>
  The development embeds \<^verbatim>\<open>src/v4l2-hdr-shim.c\<close>: the static variables of the shared
  object become a record that every function takes and returns, the process environment,
  the dynamic linker and the \<^verbatim>\<open>/proc\<close> file system become a record of the world the
  shim runs in, \<^verbatim>\<open>abort()\<close> becomes a fault value, and the payload behind the
  \<^verbatim>\<open>void *\<close> argument becomes the C object it is read as, \<^verbatim>\<open>struct v4l2_format\<close>.
  The two \<^verbatim>\<open>int\<close> flags only ever hold 0 or 1 and are Booleans here. The world does
  not change during a run: in particular the environment block, into which
  \<^verbatim>\<open>target_dev\<close> points, is not written after initialisation.
\<close>

subsection \<open>The payload: \<^verbatim>\<open>struct v4l2_format\<close>\<close>

text \<open>
  \<^verbatim>\<open>struct v4l2_pix_format\<close> has twelve 32-bit members (\<^verbatim>\<open>ycbcr_enc\<close> shares its storage
  with \<^verbatim>\<open>hsv_enc\<close>). \<^verbatim>\<open>struct v4l2_format\<close> is the discriminant \<^verbatim>\<open>type\<close> followed by
  a union \<^verbatim>\<open>fmt\<close>, which the shim reads through its member \<^verbatim>\<open>pix\<close>; the bytes of the
  union that lie behind \<^verbatim>\<open>pix\<close> are kept as \<open>fmt_raw_tail\<close>, so that two equal records
  are payloads equal byte for byte.
\<close>

record v4l2_pix_format =
  width :: "32 word"
  height :: "32 word"
  pixelformat :: "32 word"
  field :: "32 word"
  bytesperline :: "32 word"
  sizeimage :: "32 word"
  colorspace :: "32 word"
  priv :: "32 word"
  flags :: "32 word"
  ycbcr_enc :: "32 word"
  quantization :: "32 word"
  xfer_func :: "32 word"

record v4l2_format =
  type :: "32 word"
  fmt_pix :: v4l2_pix_format
  fmt_raw_tail :: "8 word list"

text \<open>
  A payload pointer is \<open>None\<close> when it is \<^verbatim>\<open>NULL\<close> and \<open>Some f\<close> when it points to an
  object whose content is \<open>f\<close>. The real dispatch function receives the descriptor, the
  request code and the pointer (with the content the pointee has at that moment); \<open>'r\<close> is
  everything it gives back: the return value, \<^verbatim>\<open>errno\<close>, what it wrote to the payload.
\<close>

type_synonym payload = "v4l2_format option"

type_synonym 'r ioctl_fn = "int \<Rightarrow> 64 word \<Rightarrow> payload \<Rightarrow> 'r"

subsection \<open>The constants of \<^verbatim>\<open><linux/videodev2.h>\<close>\<close>

text \<open>
  The header is the kernel's, not the repository's, so the six constants the shim uses are
  a parameter \<open>H\<close> of the model. \<open>linux_videodev2\<close> below gives them the values of the
  Linux UAPI header (with \<^verbatim>\<open>VIDIOC_S_FMT\<close> for an LP64 target, where
  \<^verbatim>\<open>sizeof(struct v4l2_format)\<close> is 208).
\<close>

record videodev2 =
  VIDIOC_S_FMT :: "64 word"
  V4L2_BUF_TYPE_VIDEO_OUTPUT :: "32 word"
  V4L2_COLORSPACE_BT2020 :: "32 word"
  V4L2_XFER_FUNC_SMPTE2084 :: "32 word"
  V4L2_YCBCR_ENC_BT2020 :: "32 word"
  V4L2_QUANTIZATION_LIM_RANGE :: "32 word"

subsection \<open>The world and the shim's static state\<close>

text \<open>
  \<open>dlsym_next\<close> is the result of \<^verbatim>\<open>dlsym(RTLD_NEXT, "ioctl")\<close> (\<open>None\<close> for \<^verbatim>\<open>NULL\<close>),
  \<open>getenv\<close> the process environment, and \<open>link_of path\<close> the content of the symbolic
  link at \<open>path\<close> (\<open>None\<close> when \<^verbatim>\<open>readlink\<close> fails with -1).
\<close>

record 'r world =
  dlsym_next :: "'r ioctl_fn option"
  getenv :: "string \<Rightarrow> string option"
  link_of :: "string \<Rightarrow> string option"

record 'r shim_state =
  real_ioctl :: "'r ioctl_fn option"
  target_dev :: "string option"
  shim_disabled :: bool
  shim_init_done :: bool

definition shim_state0 :: "'r shim_state" where
  "shim_state0 =
     \<lparr>real_ioctl = None, target_dev = None, shim_disabled = False, shim_init_done = False\<rparr>"

datatype fault =
    Abort string  \<comment> \<open>\<^verbatim>\<open>abort()\<close>, after the diagnostic written to \<^verbatim>\<open>stderr\<close>\<close>
  | NullCall  \<comment> \<open>a call through a \<^verbatim>\<open>NULL\<close> \<^verbatim>\<open>real_ioctl\<close>\<close>

subsection \<open>C strings\<close>

definition NUL :: char where
  "NUL = CHR 0x00"

definition c_str :: "string \<Rightarrow> string" where
  "c_str b = takeWhile (\<lambda>c. c \<noteq> NUL) b"

definition strlen :: "string \<Rightarrow> nat" where
  "strlen b = length (c_str b)"

text \<open>\<^verbatim>\<open>strcmp(a, b) == 0\<close>: the two buffers hold the same bytes up to their first NUL.\<close>

definition strcmp_is_0 :: "string \<Rightarrow> string \<Rightarrow> bool" where
  "strcmp_is_0 a b = (c_str a = c_str b)"

fun dec_digits :: "nat \<Rightarrow> string" where
  "dec_digits n =
     (if n < 10 then [''0123456789'' ! n]
      else dec_digits (n div 10) @ [''0123456789'' ! (n mod 10)])"

declare dec_digits.simps [simp del]

text \<open>The conversion \<^verbatim>\<open>%d\<close>.\<close>

definition fmt_d :: "int \<Rightarrow> string" where
  "fmt_d i = (if i < 0 then CHR ''-'' # dec_digits (nat (- i)) else dec_digits (nat i))"

text \<open>
  \<^verbatim>\<open>snprintf(proc_path, sizeof(proc_path), "/proc/self/fd/%d", fd)\<close> with a buffer of 64
  bytes: at most 63 characters are kept.
\<close>

definition proc_path :: "int \<Rightarrow> string" where
  "proc_path fd = take 63 (''/proc/self/fd/'' @ fmt_d fd)"

text \<open>
  \<^verbatim>\<open>readlink(path, buf, bufsiz)\<close> copies at most \<open>bufsiz\<close> bytes of the link's content to
  the front of \<open>buf\<close>, appends no terminator, and returns the number of bytes copied, or
  -1 and leaves the buffer alone.
\<close>

definition readlink :: "'r world \<Rightarrow> string \<Rightarrow> string \<Rightarrow> nat \<Rightarrow> int \<times> string" where
  "readlink w path buf bufsiz =
     (case link_of w path of
        None \<Rightarrow> (- 1, buf)
      | Some p \<Rightarrow>
          let k = min (length p) bufsiz in (int k, take k p @ drop k buf))"

subsection \<open>\<^verbatim>\<open>shim_init\<close>\<close>

text \<open>The line that \<^verbatim>\<open>fprintf\<close> writes to \<^verbatim>\<open>stderr\<close> before \<^verbatim>\<open>abort()\<close>.\<close>

definition diag :: string where
  "diag = ''[v4l2-hdr-shim] FATAL: cannot resolve ioctl via RTLD_NEXT'' @ [CHR 0x0A]"

text \<open>\<^verbatim>\<open>env_dis && env_dis[0] == '1'\<close>\<close>

definition affirmative :: "string option \<Rightarrow> bool" where
  "affirmative e = (case e of Some (c # _) \<Rightarrow> c = CHR ''1'' | _ \<Rightarrow> False)"

text \<open>\<^verbatim>\<open>(env_dev && env_dev[0]) ? env_dev : ""\<close>\<close>

definition device_or_empty :: "string option \<Rightarrow> string" where
  "device_or_empty e = (case e of Some (c # cs) \<Rightarrow> if c \<noteq> NUL then c # cs else [] | _ \<Rightarrow> [])"

definition shim_init :: "'r world \<Rightarrow> 'r shim_state \<Rightarrow> fault + 'r shim_state" where
  "shim_init w s =
     (if shim_init_done s then Inr s
      else
        let s1 = s\<lparr>shim_init_done := True\<rparr>;
            s2 = s1\<lparr>real_ioctl := dlsym_next w\<rparr>
        in (case real_ioctl s2 of
              None \<Rightarrow> Inl (Abort diag)
            | Some _ \<Rightarrow>
                if affirmative (getenv w ''V4L2_HDR_SHIM_DISABLE'')
                then Inr (s2\<lparr>shim_disabled := True\<rparr>)
                else Inr (s2\<lparr>target_dev :=
                            Some (device_or_empty (getenv w ''V4L2_HDR_SHIM_DEVICE''))\<rparr>)))"

subsection \<open>\<^verbatim>\<open>should_patch_fd\<close>\<close>

definition should_patch_fd :: "'r world \<Rightarrow> 'r shim_state \<Rightarrow> int \<Rightarrow> bool" where
  "should_patch_fd w s fd =
     (case target_dev s of
        None \<Rightarrow> True
      | Some t \<Rightarrow>
          if c_str t = [] then True
          else
            let link0 = replicate 256 NUL;
                (n, link1) = readlink w (proc_path fd) link0 (256 - 1)
            in if n \<le> 0 then False
               else strcmp_is_0 (link1[nat n := NUL]) t)"

subsection \<open>\<^verbatim>\<open>ioctl\<close>\<close>

text \<open>The four assignments through \<^verbatim>\<open>fmt->fmt.pix\<close>.\<close>

definition patch :: "videodev2 \<Rightarrow> v4l2_format \<Rightarrow> v4l2_format" where
  "patch H fmt =
     fmt\<lparr>fmt_pix := (fmt_pix fmt)
       \<lparr>colorspace := V4L2_COLORSPACE_BT2020 H,
        xfer_func := V4L2_XFER_FUNC_SMPTE2084 H,
        ycbcr_enc := V4L2_YCBCR_ENC_BT2020 H,
        quantization := V4L2_QUANTIZATION_LIM_RANGE H\<rparr>\<rparr>"

text \<open>
  The result of a call that returns is the new static state, the content of the payload
  as it is handed to the real dispatch function (the shim touches nothing afterwards), and
  what that function gives back.
\<close>

definition ioctl ::
  "videodev2 \<Rightarrow> 'r world \<Rightarrow> 'r shim_state \<Rightarrow> int \<Rightarrow> 64 word \<Rightarrow> payload
     \<Rightarrow> fault + ('r shim_state \<times> payload \<times> 'r)" where
  "ioctl H w s fd request arg =
     (case shim_init w s of
        Inl e \<Rightarrow> Inl e
      | Inr s' \<Rightarrow>
          let arg' =
            (if \<not> shim_disabled s' \<and> request = VIDIOC_S_FMT H \<and> arg \<noteq> None then
               (case arg of
                  None \<Rightarrow> arg
                | Some fmt \<Rightarrow>
                    if type fmt = V4L2_BUF_TYPE_VIDEO_OUTPUT H \<and> should_patch_fd w s' fd
                    then Some (patch H fmt)
                    else arg)
             else arg)
          in (case real_ioctl s' of
                None \<Rightarrow> Inl NullCall
              | Some f \<Rightarrow> Inr (s', arg', f fd request arg')))"

subsection \<open>The process: a sequence of intercepted calls\<close>

text \<open>
  The states the static variables can be in: their initial values, and what a call that
  returned has left.
\<close>

inductive_set reachable :: "videodev2 \<Rightarrow> 'r world \<Rightarrow> 'r shim_state set"
  for H :: videodev2 and w :: "'r world" where
    start: "shim_state0 \<in> reachable H w"
  | call: "s \<in> reachable H w \<Longrightarrow> ioctl H w s fd request arg = Inr (s', p, r)
             \<Longrightarrow> s' \<in> reachable H w"

text \<open>
  A run of the host process is the list of its calls (descriptor, request code, payload);
  what can be observed of it is, for each call, what reached the real dispatch function and
  what came back, until the process is terminated.
\<close>

type_synonym call = "int \<times> 64 word \<times> payload"

datatype 'r event =
    Forwarded int "64 word" payload 'r
  | Terminated fault

fun run :: "videodev2 \<Rightarrow> 'r world \<Rightarrow> 'r shim_state \<Rightarrow> call list \<Rightarrow> 'r event list" where
  "run H w s [] = []"
| "run H w s ((fd, request, arg) # cs) =
     (case ioctl H w s fd request arg of
        Inl e \<Rightarrow> [Terminated e]
      | Inr (s', arg', r) \<Rightarrow> Forwarded fd request arg' r # run H w s' cs)"

text \<open>The state that a successful initialisation leaves, in closed form.\<close>

definition ready_state :: "'r world \<Rightarrow> 'r shim_state" where
  "ready_state w =
     (if affirmative (getenv w ''V4L2_HDR_SHIM_DISABLE'')
      then \<lparr>real_ioctl = dlsym_next w, target_dev = None,
            shim_disabled = True, shim_init_done = True\<rparr>
      else \<lparr>real_ioctl = dlsym_next w,
            target_dev = Some (device_or_empty (getenv w ''V4L2_HDR_SHIM_DEVICE'')),
            shim_disabled = False, shim_init_done = True\<rparr>)"

subsection \<open>Concrete inputs\<close>

text \<open>
  The values of the Linux UAPI header \<^verbatim>\<open><linux/videodev2.h>\<close>:
  \<^verbatim>\<open>VIDIOC_S_FMT\<close> is \<^verbatim>\<open>_IOWR('V', 5, struct v4l2_format)\<close>, that is
  \<open>3 * 2^30 + 208 * 2^16 + 0x56 * 2^8 + 5\<close>;
  \<^verbatim>\<open>enum v4l2_buf_type\<close> has \<^verbatim>\<open>VIDEO_CAPTURE = 1, VIDEO_OUTPUT = 2, VIDEO_OVERLAY = 3\<close>;
  \<^verbatim>\<open>enum v4l2_colorspace\<close> has \<^verbatim>\<open>SRGB = 8, OPRGB = 9, BT2020 = 10, RAW = 11, DCI_P3 = 12\<close>;
  \<^verbatim>\<open>enum v4l2_xfer_func\<close> has \<^verbatim>\<open>NONE = 5, DCI_P3 = 6, SMPTE2084 = 7\<close>;
  \<^verbatim>\<open>enum v4l2_ycbcr_encoding\<close> has \<^verbatim>\<open>SYCC = 5, BT2020 = 6, BT2020_CONST_LUM = 7, SMPTE240M = 8\<close>;
  \<^verbatim>\<open>enum v4l2_quantization\<close> has \<^verbatim>\<open>DEFAULT = 0, FULL_RANGE = 1, LIM_RANGE = 2\<close>.
  The numbers in the comments that trail the four assignments of the source (9, 6, 10, 2)
  are, but for the last, not the values of the constants those assignments name.
\<close>

definition linux_videodev2 :: videodev2 where
  "linux_videodev2 =
     \<lparr>VIDIOC_S_FMT = 0xC0D05605,
      V4L2_BUF_TYPE_VIDEO_OUTPUT = 2,
      V4L2_COLORSPACE_BT2020 = 10,
      V4L2_XFER_FUNC_SMPTE2084 = 7,
      V4L2_YCBCR_ENC_BT2020 = 6,
      V4L2_QUANTIZATION_LIM_RANGE = 2\<rparr>"

text \<open>A real dispatch function that returns the descriptor it was given.\<close>

definition kernel_stub :: "int ioctl_fn" where
  "kernel_stub fd request arg = fd"

text \<open>An sRGB NV12 frame format of 1920 by 1080 with the given discriminant.\<close>

definition nv12_format :: "32 word \<Rightarrow> v4l2_format" where
  "nv12_format ty =
     \<lparr>type = ty,
      fmt_pix = \<lparr>width = 1920, height = 1080, pixelformat = 0x3231564E, field = 1,
                 bytesperline = 1920, sizeimage = 3110400, colorspace = 8, priv = 0,
                 flags = 0, ycbcr_enc = 0, quantization = 0, xfer_func = 0\<rparr>,
      fmt_raw_tail = replicate 152 0\<rparr>"

text \<open>
  A world with the given values of \<^verbatim>\<open>V4L2_HDR_SHIM_DISABLE\<close> and
  \<^verbatim>\<open>V4L2_HDR_SHIM_DEVICE\<close>, in which descriptor 5 is open on the path \<open>p5\<close> and no other
  descriptor resolves.
\<close>

definition world_of ::
  "int ioctl_fn option \<Rightarrow> string option \<Rightarrow> string option \<Rightarrow> string \<Rightarrow> int world" where
  "world_of real dis dev p5 =
     \<lparr>dlsym_next = real,
      getenv = (\<lambda>name. if name = ''V4L2_HDR_SHIM_DISABLE'' then dis
                       else if name = ''V4L2_HDR_SHIM_DEVICE'' then dev else None),
      link_of = (\<lambda>path. if path = proc_path 5 then Some p5 else None)\<rparr>"

subsection \<open>Concurrent first calls\<close>

text \<open>
  Threads of the host process share the static variables. Each thread runs one call; the
  statements of \<^verbatim>\<open>shim_init\<close> and the rest of \<^verbatim>\<open>ioctl\<close> are its steps, and a schedule
  (the list of the threads that step, in order) interleaves them. The source takes no lock
  and uses no atomic, so every interleaving of the steps can happen. The program counter of
  a thread is at the test of \<^verbatim>\<open>shim_init_done\<close> (line 49), at the store to it (line 50),
  at the lookup and its test (lines 52 to 56), at the disable switch (lines 58 to 62), at the
  target device (lines 64 to 65), or at the rest of \<^verbatim>\<open>ioctl\<close> (lines 94 to 119); or the
  call has returned, or it has ended the process.
\<close>

datatype 'r pc =
    At_check
  | At_set_done
  | At_dlsym
  | At_disable
  | At_device
  | At_body
  | Returned payload 'r
  | Crashed fault

record 'r system =
  statics :: "'r shim_state"
  dlsym_calls :: nat
  halted :: bool
  threads :: "(call \<times> 'r pc) list"

fun thread_step ::
  "videodev2 \<Rightarrow> 'r world \<Rightarrow> call \<Rightarrow> 'r shim_state \<Rightarrow> 'r pc \<Rightarrow> 'r shim_state \<times> 'r pc" where
  "thread_step H w c s At_check =
     (s, if shim_init_done s then At_body else At_set_done)"
| "thread_step H w c s At_set_done =
     (s\<lparr>shim_init_done := True\<rparr>, At_dlsym)"
| "thread_step H w c s At_dlsym =
     (s\<lparr>real_ioctl := dlsym_next w\<rparr>,
      case dlsym_next w of None \<Rightarrow> Crashed (Abort diag) | Some _ \<Rightarrow> At_disable)"
| "thread_step H w c s At_disable =
     (if affirmative (getenv w ''V4L2_HDR_SHIM_DISABLE'')
      then (s\<lparr>shim_disabled := True\<rparr>, At_body)
      else (s, At_device))"
| "thread_step H w c s At_device =
     (s\<lparr>target_dev := Some (device_or_empty (getenv w ''V4L2_HDR_SHIM_DEVICE''))\<rparr>, At_body)"
| "thread_step H w (fd, request, arg) s At_body =
     (s,
      let arg' =
        (if \<not> shim_disabled s \<and> request = VIDIOC_S_FMT H \<and> arg \<noteq> None then
           (case arg of
              None \<Rightarrow> arg
            | Some fmt \<Rightarrow>
                if type fmt = V4L2_BUF_TYPE_VIDEO_OUTPUT H \<and> should_patch_fd w s fd
                then Some (patch H fmt)
                else arg)
         else arg)
      in (case real_ioctl s of
            None \<Rightarrow> Crashed NullCall
          | Some f \<Rightarrow> Returned arg' (f fd request arg')))"
| "thread_step H w c s (Returned a r) = (s, Returned a r)"
| "thread_step H w c s (Crashed e) = (s, Crashed e)"

text \<open>
  One step of the scheduled thread; \<open>dlsym_calls\<close> counts the lookups made so far, and
  nothing runs once the process has been terminated.
\<close>

definition is_dlsym :: "'r pc \<Rightarrow> bool" where
  "is_dlsym p = (case p of At_dlsym \<Rightarrow> True | _ \<Rightarrow> False)"

definition is_crashed :: "'r pc \<Rightarrow> bool" where
  "is_crashed p = (case p of Crashed _ \<Rightarrow> True | _ \<Rightarrow> False)"

definition sys_step :: "videodev2 \<Rightarrow> 'r world \<Rightarrow> 'r system \<Rightarrow> nat \<Rightarrow> 'r system" where
  "sys_step H w S i =
     (if halted S \<or> length (threads S) \<le> i then S
      else
        let (c, p) = threads S ! i;
            (s', p') = thread_step H w c (statics S) p
        in \<lparr>statics = s',
            dlsym_calls = (if is_dlsym p then Suc (dlsym_calls S) else dlsym_calls S),
            halted = is_crashed p',
            threads = (threads S)[i := (c, p')]\<rparr>)"

definition exec :: "videodev2 \<Rightarrow> 'r world \<Rightarrow> nat list \<Rightarrow> 'r system \<Rightarrow> 'r system" where
  "exec H w sched S = foldl (sys_step H w) S sched"

definition boot :: "'r shim_state \<Rightarrow> call list \<Rightarrow> 'r system" where
  "boot s cs =
     \<lparr>statics = s, dlsym_calls = 0, halted = False, threads = map (\<lambda>c. (c, At_check)) cs\<rparr>"

text \<open>What the call of thread \<open>i\<close> has come to, if it has ended.\<close>

definition outcome :: "'r system \<Rightarrow> nat \<Rightarrow> (fault + 'r shim_state \<times> payload \<times> 'r) option" where
  "outcome S i =
     (if length (threads S) \<le> i then None
      else
        (case snd (threads S ! i) of
           Returned a r \<Rightarrow> Some (Inr (statics S, a, r))
         | Crashed e \<Rightarrow> Some (Inl e)
         | _ \<Rightarrow> None))"

section \<open>Properties\<close>

subsection \<open>Initialisation\<close>

lemma shim_init_again: "shim_init_done s \<Longrightarrow> shim_init w s = Inr s"
  by (simp add: shim_init_def)

lemma shim_init_first:
  "shim_init w shim_state0 =
     (case dlsym_next w of None \<Rightarrow> Inl (Abort diag) | Some f \<Rightarrow> Inr (ready_state w))"
  by (simp add: shim_init_def shim_state0_def ready_state_def Let_def split: option.splits)

lemma ready_state_done: "shim_init_done (ready_state w)"
  by (simp add: ready_state_def)

lemma ioctl_state:
  "ioctl H w s fd request arg = Inr (s', p, r) \<Longrightarrow> shim_init w s = Inr s'"
  by (auto simp: ioctl_def Let_def split: sum.splits option.splits)

text \<open>
  The state machine of the shim: a reachable state is the initial one or the one
  initialisation has left, and the latter only where the lookup has succeeded.
\<close>

lemma reachable_cases:
  "s \<in> reachable H w \<Longrightarrow>
     s = shim_state0 \<or> (s = ready_state w \<and> dlsym_next w \<noteq> None)"
proof (induction rule: reachable.induct)
  case start
  then show ?case by simp
next
  case (call s fd request arg s' p r)
  from call.hyps(2) have i: "shim_init w s = Inr s'" by (rule ioctl_state)
  from call.IH show ?case
  proof
    assume "s = shim_state0"
    with i show ?thesis by (auto simp: shim_init_first split: option.splits)
  next
    assume "s = ready_state w \<and> dlsym_next w \<noteq> None"
    with i show ?thesis by (simp add: shim_init_again ready_state_done)
  qed
qed

lemma shim_init_reachable:
  "s \<in> reachable H w \<Longrightarrow>
     shim_init w s =
       (case dlsym_next w of None \<Rightarrow> Inl (Abort diag) | Some f \<Rightarrow> Inr (ready_state w))"
  by (auto dest!: reachable_cases simp: shim_init_first shim_init_again ready_state_done
      split: option.splits)

text \<open>What a call does in a reachable state, in closed form.\<close>

lemma ioctl_reachable:
  "s \<in> reachable H w \<Longrightarrow>
   ioctl H w s fd request arg =
     (case dlsym_next w of
        None \<Rightarrow> Inl (Abort diag)
      | Some f \<Rightarrow>
          let arg' =
            (case arg of
               None \<Rightarrow> None
             | Some fmt \<Rightarrow>
                 if \<not> affirmative (getenv w ''V4L2_HDR_SHIM_DISABLE'')
                    \<and> request = VIDIOC_S_FMT H
                    \<and> type fmt = V4L2_BUF_TYPE_VIDEO_OUTPUT H
                    \<and> should_patch_fd w (ready_state w) fd
                 then Some (patch H fmt) else Some fmt)
          in Inr (ready_state w, arg', f fd request arg'))"
  by (auto simp: ioctl_def shim_init_reachable Let_def ready_state_def split: option.splits)

subsection \<open>The device matcher\<close>

lemma c_str_terminated: "c_str (xs @ NUL # ys) = c_str xs"
  by (induction xs) (simp_all add: c_str_def)

lemma c_str_no_NUL: "NUL \<notin> set xs \<Longrightarrow> c_str xs = xs"
  by (induction xs) (auto simp: c_str_def)

lemma length_c_str: "length (c_str xs) \<le> length xs"
  by (simp add: c_str_def length_takeWhile_le)

text \<open>
  The buffer \<^verbatim>\<open>link\<close> after \<^verbatim>\<open>readlink\<close> has put \<open>k\<close> bytes there and \<^verbatim>\<open>link[n] = '\0'\<close>
  has run.
\<close>

lemma link_buffer:
  assumes "k \<le> 255" and "length xs = k"
  shows "(xs @ drop k (replicate 256 NUL))[k := NUL] = xs @ NUL # replicate (255 - k) NUL"
proof -
  from assms(1) have "256 - k = Suc (255 - k)"
    by arith
  then have "replicate (256 - k) NUL = NUL # replicate (255 - k) NUL"
    by simp
  with assms(2) show ?thesis
    by (simp add: list_update_append)
qed

lemma should_patch_fd_eq:
  "should_patch_fd w s fd =
     (case target_dev s of
        None \<Rightarrow> True
      | Some t \<Rightarrow>
          c_str t = [] \<or>
          (case link_of w (proc_path fd) of
             None \<Rightarrow> False
           | Some p \<Rightarrow> p \<noteq> [] \<and> c_str (take 255 p) = c_str t))"
proof (cases "target_dev s")
  case None
  then show ?thesis by (simp add: should_patch_fd_def)
next
  case (Some t)
  show ?thesis
  proof (cases "link_of w (proc_path fd)")
    case None
    with Some show ?thesis by (simp add: should_patch_fd_def readlink_def)
  next
    case (Some p)
    define k where "k = min (length p) 255"
    have k: "k \<le> 255" "length (take k p) = k" "take k p = take 255 p"
      by (simp_all add: k_def min_def)
    have buf: "c_str ((take k p @ drop k (replicate 256 NUL))[k := NUL]) = c_str (take 255 p)"
      using link_buffer [OF k(1) k(2)] by (simp add: c_str_terminated k(3))
    have pos: "int k \<le> 0 \<longleftrightarrow> p = []"
      by (auto simp: k_def min_def)
    from \<open>target_dev s = Some t\<close> Some buf pos show ?thesis
      by (simp add: should_patch_fd_def readlink_def Let_def strcmp_is_0_def k_def [symmetric])
  qed
qed

text \<open>A target that does not fit the link buffer matches nothing.\<close>

lemma c_str_take_neq:
  assumes "255 < strlen t"
  shows "c_str (take 255 p) \<noteq> c_str t"
proof
  assume "c_str (take 255 p) = c_str t"
  then have "length (c_str (take 255 p)) = strlen t"
    by (simp add: strlen_def)
  moreover have "length (c_str (take 255 p)) \<le> 255"
    using length_c_str [of "take 255 p"] by simp
  ultimately show False using assms by simp
qed

lemma long_target_no_match:
  assumes "255 < strlen t" and "target_dev s = Some t"
  shows "\<not> should_patch_fd w s fd"
proof -
  from assms(1) have "c_str t \<noteq> []"
    by (auto simp: strlen_def)
  with assms(2) c_str_take_neq [OF assms(1)] show ?thesis
    by (simp add: should_patch_fd_eq split: option.splits)
qed

subsection \<open>Requests other than the format-set request\<close>

text \<open>
  Claim C2. In every state the process can be in, a call whose request code is not
  \<^verbatim>\<open>VIDIOC_S_FMT\<close> hands the payload to the real dispatch function as it received it and
  returns what that function returns for the same descriptor, request code and payload
  pointer. The one exception is the first call of a process in which the lookup of the real
  function has failed: it aborts, modifying and forwarding nothing.
\<close>

theorem ioctl_other_request_passthrough:
  assumes "s \<in> reachable H w" and "request \<noteq> VIDIOC_S_FMT H"
  shows "case dlsym_next w of
           None \<Rightarrow> ioctl H w s fd request arg = Inl (Abort diag)
         | Some f \<Rightarrow> \<exists>s'. ioctl H w s fd request arg = Inr (s', arg, f fd request arg)"
  using assms by (simp add: ioctl_reachable Let_def split: option.splits)

theorem ioctl_other_request_passthrough_witness:
  "shim_state0 \<in> reachable linux_videodev2 (world_of (Some kernel_stub) None None ''/dev/video5'')
   \<and> (0xC0D05604 :: 64 word) \<noteq> VIDIOC_S_FMT linux_videodev2
   \<and> (\<exists>s'. ioctl linux_videodev2 (world_of (Some kernel_stub) None None ''/dev/video5'')
              shim_state0 5 0xC0D05604 (Some (nv12_format 2))
            = Inr (s', Some (nv12_format 2), 5))"
proof -
  let ?w = "world_of (Some kernel_stub) None None ''/dev/video5''"
  have r: "shim_state0 \<in> reachable linux_videodev2 ?w"
    by (rule reachable.start)
  have n: "(0xC0D05604 :: 64 word) \<noteq> VIDIOC_S_FMT linux_videodev2"
    by (simp add: linux_videodev2_def)
  from ioctl_other_request_passthrough [OF r n, of 5 "Some (nv12_format 2)"]
  have "\<exists>s'. ioctl linux_videodev2 ?w shim_state0 5 0xC0D05604 (Some (nv12_format 2))
          = Inr (s', Some (nv12_format 2), kernel_stub 5 0xC0D05604 (Some (nv12_format 2)))"
    by (simp add: world_of_def)
  with r n show ?thesis
    by (simp add: kernel_stub_def)
qed

subsection \<open>Format-set requests for another direction\<close>

text \<open>
  Claim C4. In every state the process can be in, a \<^verbatim>\<open>VIDIOC_S_FMT\<close> call whose payload
  has a type discriminant other than \<^verbatim>\<open>V4L2_BUF_TYPE_VIDEO_OUTPUT\<close> (capture, overlay or
  any other value) hands the payload to the real dispatch function as it received it. (The
  first call of a process in which the lookup of the real function has failed aborts,
  modifying nothing.)
\<close>

theorem ioctl_non_output_type_untouched:
  assumes "s \<in> reachable H w" and "type fmt \<noteq> V4L2_BUF_TYPE_VIDEO_OUTPUT H"
  shows "case dlsym_next w of
           None \<Rightarrow> ioctl H w s fd (VIDIOC_S_FMT H) (Some fmt) = Inl (Abort diag)
         | Some f \<Rightarrow>
             \<exists>s'. ioctl H w s fd (VIDIOC_S_FMT H) (Some fmt)
                    = Inr (s', Some fmt, f fd (VIDIOC_S_FMT H) (Some fmt))"
  using assms by (simp add: ioctl_reachable Let_def split: option.splits)

theorem ioctl_non_output_type_untouched_witness:
  "shim_state0 \<in> reachable linux_videodev2 (world_of (Some kernel_stub) None None ''/dev/video5'')
   \<and> type (nv12_format 1) \<noteq> V4L2_BUF_TYPE_VIDEO_OUTPUT linux_videodev2
   \<and> (\<exists>s'. ioctl linux_videodev2 (world_of (Some kernel_stub) None None ''/dev/video5'')
              shim_state0 5 (VIDIOC_S_FMT linux_videodev2) (Some (nv12_format 1))
            = Inr (s', Some (nv12_format 1), 5))"
proof -
  let ?w = "world_of (Some kernel_stub) None None ''/dev/video5''"
  have r: "shim_state0 \<in> reachable linux_videodev2 ?w"
    by (rule reachable.start)
  have n: "type (nv12_format 1) \<noteq> V4L2_BUF_TYPE_VIDEO_OUTPUT linux_videodev2"
    by (simp add: linux_videodev2_def nv12_format_def)
  from ioctl_non_output_type_untouched [OF r n, of 5]
  have "\<exists>s'. ioctl linux_videodev2 ?w shim_state0 5 (VIDIOC_S_FMT linux_videodev2)
               (Some (nv12_format 1))
          = Inr (s', Some (nv12_format 1),
                 kernel_stub 5 (VIDIOC_S_FMT linux_videodev2) (Some (nv12_format 1)))"
    by (simp add: world_of_def)
  with r n show ?thesis
    by (simp add: kernel_stub_def)
qed

subsection \<open>All four fields or none\<close>

text \<open>
  Claim C6. On every intercepted call, in every state the process can be in, the payload
  that reaches the real dispatch function either is the payload as received, or differs
  from it in that all four of \<^verbatim>\<open>colorspace\<close>, \<^verbatim>\<open>xfer_func\<close>, \<^verbatim>\<open>ycbcr_enc\<close> and
  \<^verbatim>\<open>quantization\<close> hold the one fixed combination and nothing else has changed; no
  payload with only some of the four rewritten is ever forwarded.
\<close>

theorem ioctl_patch_all_or_nothing:
  assumes "s \<in> reachable H w"
  shows "case dlsym_next w of
           None \<Rightarrow> ioctl H w s fd request arg = Inl (Abort diag)
         | Some f \<Rightarrow>
             \<exists>s' arg'. ioctl H w s fd request arg = Inr (s', arg', f fd request arg')
               \<and> (arg' = arg
                  \<or> (\<exists>fmt. arg = Some fmt
                        \<and> arg' = Some (fmt\<lparr>fmt_pix := (fmt_pix fmt)
                                    \<lparr>colorspace := V4L2_COLORSPACE_BT2020 H,
                                     xfer_func := V4L2_XFER_FUNC_SMPTE2084 H,
                                     ycbcr_enc := V4L2_YCBCR_ENC_BT2020 H,
                                     quantization := V4L2_QUANTIZATION_LIM_RANGE H\<rparr>\<rparr>)))"
  using assms by (auto simp: ioctl_reachable Let_def patch_def split: option.splits)

theorem ioctl_patch_all_or_nothing_witness:
  "shim_state0 \<in> reachable linux_videodev2 (world_of (Some kernel_stub) None None ''/dev/video5'')
   \<and> (\<exists>s' arg'. ioctl linux_videodev2 (world_of (Some kernel_stub) None None ''/dev/video5'')
                   shim_state0 5 (VIDIOC_S_FMT linux_videodev2) (Some (nv12_format 2))
                 = Inr (s', arg', 5)
         \<and> (arg' = Some (nv12_format 2)
            \<or> arg' = Some ((nv12_format 2)\<lparr>fmt_pix := (fmt_pix (nv12_format 2))
                           \<lparr>colorspace := 10, xfer_func := 7, ycbcr_enc := 6,
                            quantization := 2\<rparr>\<rparr>)))"
proof -
  let ?w = "world_of (Some kernel_stub) None None ''/dev/video5''"
  have r: "shim_state0 \<in> reachable linux_videodev2 ?w"
    by (rule reachable.start)
  have d: "dlsym_next ?w = Some kernel_stub"
    by (simp add: world_of_def)
  from ioctl_patch_all_or_nothing [OF r, of 5 "VIDIOC_S_FMT linux_videodev2"
      "Some (nv12_format 2)"]
  have "\<exists>s' arg'. ioctl linux_videodev2 ?w shim_state0 5 (VIDIOC_S_FMT linux_videodev2)
                    (Some (nv12_format 2))
                 = Inr (s', arg', 5)
         \<and> (arg' = Some (nv12_format 2)
            \<or> arg' = Some ((nv12_format 2)\<lparr>fmt_pix := (fmt_pix (nv12_format 2))
                           \<lparr>colorspace := 10, xfer_func := 7, ycbcr_enc := 6,
                            quantization := 2\<rparr>\<rparr>))"
    unfolding d option.case by (simp add: kernel_stub_def linux_videodev2_def)
  with r show ?thesis
    by (rule conjI)
qed

subsection \<open>Output requests when no target device is configured\<close>

lemma should_patch_fd_no_target:
  "\<not> affirmative (getenv w ''V4L2_HDR_SHIM_DISABLE'') \<Longrightarrow>
   device_or_empty (getenv w ''V4L2_HDR_SHIM_DEVICE'') = [] \<Longrightarrow>
   should_patch_fd w (ready_state w) fd"
  by (simp add: should_patch_fd_def ready_state_def c_str_def)

lemma ioctl_patches_any_header:
  assumes "s \<in> reachable H w"
    and "dlsym_next w = Some f"
    and "\<not> affirmative (getenv w ''V4L2_HDR_SHIM_DISABLE'')"
    and "device_or_empty (getenv w ''V4L2_HDR_SHIM_DEVICE'') = []"
    and "type fmt = V4L2_BUF_TYPE_VIDEO_OUTPUT H"
  shows "ioctl H w s fd (VIDIOC_S_FMT H) (Some fmt)
           = Inr (ready_state w, Some (patch H fmt), f fd (VIDIOC_S_FMT H) (Some (patch H fmt)))"
  using assms by (simp add: ioctl_reachable should_patch_fd_no_target Let_def)

text \<open>
  Claim C1, with the numbers of the header. Where the shim is enabled and
  \<^verbatim>\<open>V4L2_HDR_SHIM_DEVICE\<close> is unset or empty, every \<^verbatim>\<open>VIDIOC_S_FMT\<close> call with a
  non-null payload whose type is \<^verbatim>\<open>V4L2_BUF_TYPE_VIDEO_OUTPUT\<close> returns, and the payload
  that reaches the real dispatch function is the received one with exactly the four fields
  overwritten: \<^verbatim>\<open>colorspace\<close> is \<^verbatim>\<open>V4L2_COLORSPACE_BT2020\<close> (10), \<^verbatim>\<open>xfer_func\<close> is
  \<^verbatim>\<open>V4L2_XFER_FUNC_SMPTE2084\<close> (7), \<^verbatim>\<open>ycbcr_enc\<close> is \<^verbatim>\<open>V4L2_YCBCR_ENC_BT2020\<close> (6) and
  \<^verbatim>\<open>quantization\<close> is \<^verbatim>\<open>V4L2_QUANTIZATION_LIM_RANGE\<close> (2). The result is what the real
  function returns for the patched payload.
\<close>

theorem ioctl_patches_output_without_target:
  assumes "s \<in> reachable linux_videodev2 w"
    and "dlsym_next w = Some f"
    and "\<not> affirmative (getenv w ''V4L2_HDR_SHIM_DISABLE'')"
    and "device_or_empty (getenv w ''V4L2_HDR_SHIM_DEVICE'') = []"
    and "type fmt = V4L2_BUF_TYPE_VIDEO_OUTPUT linux_videodev2"
  shows "\<exists>s' fmt'.
           ioctl linux_videodev2 w s fd (VIDIOC_S_FMT linux_videodev2) (Some fmt)
             = Inr (s', Some fmt', f fd (VIDIOC_S_FMT linux_videodev2) (Some fmt'))
           \<and> fmt' = fmt\<lparr>fmt_pix := (fmt_pix fmt)
                        \<lparr>colorspace := 10, xfer_func := 7, ycbcr_enc := 6,
                         quantization := 2\<rparr>\<rparr>"
  using ioctl_patches_any_header [OF assms, of fd]
  by (simp add: patch_def linux_videodev2_def)

theorem ioctl_patches_output_without_target_witness:
  "shim_state0 \<in> reachable linux_videodev2 (world_of (Some kernel_stub) None (Some []) [])
   \<and> \<not> affirmative (getenv (world_of (Some kernel_stub) None (Some []) [])
                       ''V4L2_HDR_SHIM_DISABLE'')
   \<and> device_or_empty (getenv (world_of (Some kernel_stub) None (Some []) [])
                       ''V4L2_HDR_SHIM_DEVICE'') = []
   \<and> type (nv12_format 2) = V4L2_BUF_TYPE_VIDEO_OUTPUT linux_videodev2
   \<and> (\<exists>s'. ioctl linux_videodev2 (world_of (Some kernel_stub) None (Some []) []) shim_state0 9
              (VIDIOC_S_FMT linux_videodev2) (Some (nv12_format 2))
            = Inr (s',
                   Some ((nv12_format 2)\<lparr>fmt_pix := (fmt_pix (nv12_format 2))
                           \<lparr>colorspace := 10, xfer_func := 7, ycbcr_enc := 6,
                            quantization := 2\<rparr>\<rparr>),
                   9))"
proof -
  let ?w = "world_of (Some kernel_stub) None (Some []) []"
  have r: "shim_state0 \<in> reachable linux_videodev2 ?w"
    by (rule reachable.start)
  have d: "dlsym_next ?w = Some kernel_stub"
    by (simp add: world_of_def)
  have a: "\<not> affirmative (getenv ?w ''V4L2_HDR_SHIM_DISABLE'')"
    by (simp add: world_of_def affirmative_def)
  have e: "device_or_empty (getenv ?w ''V4L2_HDR_SHIM_DEVICE'') = []"
    by (simp add: world_of_def device_or_empty_def)
  have t: "type (nv12_format 2) = V4L2_BUF_TYPE_VIDEO_OUTPUT linux_videodev2"
    by (simp add: nv12_format_def linux_videodev2_def)
  from ioctl_patches_output_without_target [OF r d a e t, of 9]
  have "\<exists>s'. ioctl linux_videodev2 ?w shim_state0 9
              (VIDIOC_S_FMT linux_videodev2) (Some (nv12_format 2))
            = Inr (s',
                   Some ((nv12_format 2)\<lparr>fmt_pix := (fmt_pix (nv12_format 2))
                           \<lparr>colorspace := 10, xfer_func := 7, ycbcr_enc := 6,
                            quantization := 2\<rparr>\<rparr>),
                   9)"
    by (simp add: kernel_stub_def)
  with r a e t show ?thesis
    by simp
qed

text \<open>
  With the numbers the claim gives (9, 6, 10, 2, those of the comments in the source) the
  statement fails: compiled against the header, the first such call of a process writes
  10, 7, 6 and 2.
\<close>

theorem ioctl_patch_numerals_counterexample:
  "\<not> (\<exists>s' fmt' r.
        ioctl linux_videodev2 (world_of (Some kernel_stub) None None []) shim_state0 9
          (VIDIOC_S_FMT linux_videodev2) (Some (nv12_format 2)) = Inr (s', Some fmt', r)
        \<and> colorspace (fmt_pix fmt') = 9 \<and> xfer_func (fmt_pix fmt') = 6
        \<and> ycbcr_enc (fmt_pix fmt') = 10 \<and> quantization (fmt_pix fmt') = 2)"
  by (simp add: ioctl_def shim_init_def shim_state0_def world_of_def affirmative_def
      device_or_empty_def should_patch_fd_def c_str_def patch_def linux_videodev2_def
      nv12_format_def Let_def)

subsection \<open>Output requests when a target device is configured\<close>

lemma device_or_empty_Some:
  "t \<noteq> [] \<Longrightarrow> NUL \<notin> set t \<Longrightarrow> device_or_empty (Some t) = t"
  by (cases t) (auto simp: device_or_empty_def)

lemma device_or_empty_c_str:
  "c_str (device_or_empty e) = [] \<longleftrightarrow> device_or_empty e = []"
  by (auto simp: device_or_empty_def c_str_def split: option.splits list.splits)

lemma target_of_ready_state:
  "\<not> affirmative (getenv w ''V4L2_HDR_SHIM_DISABLE'') \<Longrightarrow>
   target_dev (ready_state w) = Some (device_or_empty (getenv w ''V4L2_HDR_SHIM_DEVICE''))"
  by (simp add: ready_state_def)

lemma c_str_replicate: "c \<noteq> NUL \<Longrightarrow> c_str (replicate n c) = replicate n c"
  by (simp add: c_str_no_NUL)

text \<open>
  Claim C3, for paths that fit the link buffer. Where the shim is enabled and
  \<^verbatim>\<open>V4L2_HDR_SHIM_DEVICE\<close> is a non-empty path \<open>t\<close>, a \<^verbatim>\<open>VIDIOC_S_FMT\<close> call with a
  \<^verbatim>\<open>V4L2_BUF_TYPE_VIDEO_OUTPUT\<close> payload on a descriptor whose resolution fails or yields
  a path of at most 255 bytes returns, and the four fields are overwritten if and only if
  the resolution succeeds and the path it yields is equal, byte for byte, to \<open>t\<close>;
  otherwise the payload is forwarded as received. Paths are C strings: they hold no NUL.
  The statement says nothing of a descriptor that resolves to a longer path.
\<close>

theorem ioctl_patches_iff_path_matches:
  assumes "s \<in> reachable H w"
    and "dlsym_next w = Some f"
    and "\<not> affirmative (getenv w ''V4L2_HDR_SHIM_DISABLE'')"
    and "getenv w ''V4L2_HDR_SHIM_DEVICE'' = Some t"
    and "t \<noteq> []" and "NUL \<notin> set t"
    and "\<forall>p. link_of w (proc_path fd) = Some p \<longrightarrow> NUL \<notin> set p \<and> length p \<le> 255"
    and "type fmt = V4L2_BUF_TYPE_VIDEO_OUTPUT H"
  shows "\<exists>s' arg'.
           ioctl H w s fd (VIDIOC_S_FMT H) (Some fmt)
             = Inr (s', arg', f fd (VIDIOC_S_FMT H) arg')
           \<and> arg' =
               (if link_of w (proc_path fd) = Some t
                then Some (fmt\<lparr>fmt_pix := (fmt_pix fmt)
                            \<lparr>colorspace := V4L2_COLORSPACE_BT2020 H,
                             xfer_func := V4L2_XFER_FUNC_SMPTE2084 H,
                             ycbcr_enc := V4L2_YCBCR_ENC_BT2020 H,
                             quantization := V4L2_QUANTIZATION_LIM_RANGE H\<rparr>\<rparr>)
                else Some fmt)"
proof -
  from assms(3-6) have tgt: "target_dev (ready_state w) = Some t"
    by (simp add: target_of_ready_state device_or_empty_Some)
  from assms(5,6) have ct: "c_str t = t"
    by (simp add: c_str_no_NUL)
  have m: "should_patch_fd w (ready_state w) fd \<longleftrightarrow> link_of w (proc_path fd) = Some t"
  proof (cases "link_of w (proc_path fd)")
    case None
    with tgt ct assms(5) show ?thesis
      by (simp add: should_patch_fd_eq)
  next
    case (Some p)
    with assms(7) have p: "NUL \<notin> set p" "length p \<le> 255"
      by simp_all
    from p(2) have "take 255 p = p"
      by simp
    with p(1) have "c_str (take 255 p) = p"
      by (simp add: c_str_no_NUL)
    with tgt ct assms(5) Some show ?thesis
      by (auto simp: should_patch_fd_eq)
  qed
  show ?thesis
  proof (cases "link_of w (proc_path fd) = Some t")
    case True
    with m have "should_patch_fd w (ready_state w) fd" by simp
    with assms(1-3,8) True show ?thesis
      by (simp add: ioctl_reachable Let_def patch_def)
  next
    case False
    with m have "\<not> should_patch_fd w (ready_state w) fd" by simp
    with assms(1-3,8) False show ?thesis
      by (simp add: ioctl_reachable Let_def)
  qed
qed

theorem ioctl_patches_iff_path_matches_witness:
  "shim_state0 \<in> reachable linux_videodev2
      (world_of (Some kernel_stub) None (Some ''/dev/video5'') ''/dev/video5'')
   \<and> (\<exists>s'. ioctl linux_videodev2
              (world_of (Some kernel_stub) None (Some ''/dev/video5'') ''/dev/video5'')
              shim_state0 5 (VIDIOC_S_FMT linux_videodev2) (Some (nv12_format 2))
            = Inr (s',
                   Some ((nv12_format 2)\<lparr>fmt_pix := (fmt_pix (nv12_format 2))
                           \<lparr>colorspace := 10, xfer_func := 7, ycbcr_enc := 6,
                            quantization := 2\<rparr>\<rparr>),
                   5))
   \<and> (\<exists>s'. ioctl linux_videodev2
              (world_of (Some kernel_stub) None (Some ''/dev/video5'') ''/dev/video7'')
              shim_state0 5 (VIDIOC_S_FMT linux_videodev2) (Some (nv12_format 2))
            = Inr (s', Some (nv12_format 2), 5))"
proof -
  let ?w5 = "world_of (Some kernel_stub) None (Some ''/dev/video5'') ''/dev/video5''"
  let ?w7 = "world_of (Some kernel_stub) None (Some ''/dev/video5'') ''/dev/video7''"
  have r5: "shim_state0 \<in> reachable linux_videodev2 ?w5"
    and r7: "shim_state0 \<in> reachable linux_videodev2 ?w7"
    by (rule reachable.start)+
  have d: "dlsym_next ?w5 = Some kernel_stub" "dlsym_next ?w7 = Some kernel_stub"
    by (simp_all add: world_of_def)
  have a: "\<not> affirmative (getenv ?w5 ''V4L2_HDR_SHIM_DISABLE'')"
    "\<not> affirmative (getenv ?w7 ''V4L2_HDR_SHIM_DISABLE'')"
    by (simp_all add: world_of_def affirmative_def)
  have g: "getenv ?w5 ''V4L2_HDR_SHIM_DEVICE'' = Some ''/dev/video5''"
    "getenv ?w7 ''V4L2_HDR_SHIM_DEVICE'' = Some ''/dev/video5''"
    by (simp_all add: world_of_def)
  have n: "''/dev/video5'' \<noteq> []" "NUL \<notin> set ''/dev/video5''"
    by (simp_all add: NUL_def)
  have l: "\<forall>p. link_of ?w5 (proc_path 5) = Some p \<longrightarrow> NUL \<notin> set p \<and> length p \<le> 255"
    "\<forall>p. link_of ?w7 (proc_path 5) = Some p \<longrightarrow> NUL \<notin> set p \<and> length p \<le> 255"
    by (auto simp: world_of_def NUL_def)
  have t: "type (nv12_format 2) = V4L2_BUF_TYPE_VIDEO_OUTPUT linux_videodev2"
    by (simp add: nv12_format_def linux_videodev2_def)
  from ioctl_patches_iff_path_matches [OF r5 d(1) a(1) g(1) n l(1) t]
  have p5: "\<exists>s'. ioctl linux_videodev2 ?w5 shim_state0 5 (VIDIOC_S_FMT linux_videodev2)
                   (Some (nv12_format 2))
            = Inr (s',
                   Some ((nv12_format 2)\<lparr>fmt_pix := (fmt_pix (nv12_format 2))
                           \<lparr>colorspace := 10, xfer_func := 7, ycbcr_enc := 6,
                            quantization := 2\<rparr>\<rparr>),
                   5)"
    by (simp add: world_of_def kernel_stub_def linux_videodev2_def)
  from ioctl_patches_iff_path_matches [OF r7 d(2) a(2) g(2) n l(2) t]
  have p7: "\<exists>s'. ioctl linux_videodev2 ?w7 shim_state0 5 (VIDIOC_S_FMT linux_videodev2)
                   (Some (nv12_format 2))
            = Inr (s', Some (nv12_format 2), 5)"
    by (simp add: world_of_def kernel_stub_def linux_videodev2_def)
  from r5 p5 p7 show ?thesis
    by (intro conjI)
qed

text \<open>
  As the claim states it, for every descriptor, it fails where the path does not fit the
  buffer: with the target \<^verbatim>\<open>/tmp/aaa...a\<close> of 256 bytes (a file name of 251 bytes in
  \<^verbatim>\<open>/tmp\<close>) configured, a descriptor open on that very file is not patched, since only
  255 bytes of its path are read back.
\<close>

theorem ioctl_exact_path_match_counterexample:
  "\<not> ((\<exists>s' r. ioctl linux_videodev2
                 (world_of (Some kernel_stub) None (Some (''/tmp/'' @ replicate 251 CHR ''a''))
                    (''/tmp/'' @ replicate 251 CHR ''a''))
                 shim_state0 5 (VIDIOC_S_FMT linux_videodev2) (Some (nv12_format 2))
               = Inr (s',
                      Some ((nv12_format 2)\<lparr>fmt_pix := (fmt_pix (nv12_format 2))
                              \<lparr>colorspace := 10, xfer_func := 7, ycbcr_enc := 6,
                               quantization := 2\<rparr>\<rparr>),
                      r))
        \<longleftrightarrow>
        link_of (world_of (Some kernel_stub) None (Some (''/tmp/'' @ replicate 251 CHR ''a''))
                   (''/tmp/'' @ replicate 251 CHR ''a'')) (proc_path 5)
          = Some (''/tmp/'' @ replicate 251 CHR ''a''))"
proof -
  let ?t = "''/tmp/'' @ replicate 251 CHR ''a''"
  let ?w = "world_of (Some kernel_stub) None (Some ?t) ?t"
  have d: "dlsym_next ?w = Some kernel_stub"
    by (simp add: world_of_def)
  have ne: "?t \<noteq> []" by simp
  have nn: "NUL \<notin> set ?t" by (simp add: NUL_def)
  have dev: "device_or_empty (getenv ?w ''V4L2_HDR_SHIM_DEVICE'') = ?t"
    using device_or_empty_Some [OF ne nn] by (simp add: world_of_def)
  have aff: "\<not> affirmative (getenv ?w ''V4L2_HDR_SHIM_DISABLE'')"
    by (simp add: world_of_def affirmative_def)
  have tgt: "target_dev (ready_state ?w) = Some ?t"
    using target_of_ready_state [OF aff] dev by simp
  have len: "255 < strlen ?t"
    using c_str_no_NUL [OF nn] by (simp add: strlen_def)
  from len tgt have m: "\<not> should_patch_fd ?w (ready_state ?w) 5"
    by (rule long_target_no_match)
  have io: "ioctl linux_videodev2 ?w shim_state0 5 (VIDIOC_S_FMT linux_videodev2)
              (Some (nv12_format 2))
            = Inr (ready_state ?w, Some (nv12_format 2), 5)"
    unfolding ioctl_reachable [OF reachable.start] d option.case
    using m aff by (simp add: Let_def kernel_stub_def)
  have lk: "link_of ?w (proc_path 5) = Some ?t"
    by (simp add: world_of_def)
  have df: "nv12_format 2 \<noteq> (nv12_format 2)\<lparr>fmt_pix := (fmt_pix (nv12_format 2))
                              \<lparr>colorspace := 10, xfer_func := 7, ycbcr_enc := 6,
                               quantization := 2\<rparr>\<rparr>"
    by (simp add: nv12_format_def)
  from df show ?thesis
    unfolding io lk by simp
qed

subsection \<open>Descriptors that do not resolve\<close>

text \<open>
  Claim C7. The device matcher resolves a descriptor only where the shim is enabled and a
  target device is configured. Whenever that resolution fails (\<^verbatim>\<open>readlink\<close> yields no
  byte, \<^verbatim>\<open>n <= 0\<close>, as for a closed descriptor or one that no path backs), the matcher
  answers no-match, the payload is forwarded as it was received, whatever the request, and
  the call returns what the real dispatch function returns: the matching step surfaces no
  error.
\<close>

theorem unresolved_descriptor_not_patched:
  assumes "s \<in> reachable H w"
    and "dlsym_next w = Some f"
    and "\<not> affirmative (getenv w ''V4L2_HDR_SHIM_DISABLE'')"
    and "device_or_empty (getenv w ''V4L2_HDR_SHIM_DEVICE'') \<noteq> []"
    and "fst (readlink w (proc_path fd) (replicate 256 NUL) 255) \<le> 0"
  shows "\<exists>s'. shim_init w s = Inr s'
           \<and> \<not> should_patch_fd w s' fd
           \<and> ioctl H w s fd request arg = Inr (s', arg, f fd request arg)"
proof -
  from assms(3) have tgt:
    "target_dev (ready_state w) = Some (device_or_empty (getenv w ''V4L2_HDR_SHIM_DEVICE''))"
    by (rule target_of_ready_state)
  from assms(4) have ne: "c_str (device_or_empty (getenv w ''V4L2_HDR_SHIM_DEVICE'')) \<noteq> []"
    by (simp add: device_or_empty_c_str)
  from assms(5) have "link_of w (proc_path fd) = None \<or> link_of w (proc_path fd) = Some []"
    by (auto simp: readlink_def Let_def min_def split: option.splits if_splits)
  with tgt ne have m: "\<not> should_patch_fd w (ready_state w) fd"
    by (auto simp: should_patch_fd_eq)
  from assms(1,2) have i: "shim_init w s = Inr (ready_state w)"
    by (simp add: shim_init_reachable)
  from assms(1,2) m have
    "ioctl H w s fd request arg = Inr (ready_state w, arg, f fd request arg)"
    by (simp add: ioctl_reachable Let_def split: option.splits)
  with i m show ?thesis by blast
qed

theorem unresolved_descriptor_not_patched_witness:
  "shim_state0 \<in> reachable linux_videodev2
      (world_of (Some kernel_stub) None (Some ''/dev/video5'') ''/dev/video5'')
   \<and> fst (readlink (world_of (Some kernel_stub) None (Some ''/dev/video5'') ''/dev/video5'')
            (proc_path 6) (replicate 256 NUL) 255) \<le> 0
   \<and> (\<exists>s'. \<not> should_patch_fd
               (world_of (Some kernel_stub) None (Some ''/dev/video5'') ''/dev/video5'') s' 6
          \<and> ioctl linux_videodev2
               (world_of (Some kernel_stub) None (Some ''/dev/video5'') ''/dev/video5'')
               shim_state0 6 (VIDIOC_S_FMT linux_videodev2) (Some (nv12_format 2))
             = Inr (s', Some (nv12_format 2), 6))"
proof -
  let ?w = "world_of (Some kernel_stub) None (Some ''/dev/video5'') ''/dev/video5''"
  have r: "shim_state0 \<in> reachable linux_videodev2 ?w"
    by (rule reachable.start)
  have d: "dlsym_next ?w = Some kernel_stub"
    by (simp add: world_of_def)
  have a: "\<not> affirmative (getenv ?w ''V4L2_HDR_SHIM_DISABLE'')"
    by (simp add: world_of_def affirmative_def)
  have e: "device_or_empty (getenv ?w ''V4L2_HDR_SHIM_DEVICE'') \<noteq> []"
    by (simp add: world_of_def device_or_empty_def NUL_def)
  have p: "proc_path 6 \<noteq> proc_path 5"
    by (simp add: proc_path_def fmt_d_def dec_digits.simps)
  then have l: "fst (readlink ?w (proc_path 6) (replicate 256 NUL) 255) \<le> 0"
    by (simp add: readlink_def world_of_def)
  from unresolved_descriptor_not_patched [OF r d a e l,
      where request = "VIDIOC_S_FMT linux_videodev2" and arg = "Some (nv12_format 2)"]
  have "\<exists>s'. \<not> should_patch_fd ?w s' 6
          \<and> ioctl linux_videodev2 ?w shim_state0 6 (VIDIOC_S_FMT linux_videodev2)
               (Some (nv12_format 2))
             = Inr (s', Some (nv12_format 2), 6)"
    by (auto simp: kernel_stub_def)
  with r l show ?thesis
    by (intro conjI)
qed

subsection \<open>Targets longer than the link buffer\<close>

text \<open>
  Claim C10. The device matcher compares at most the first 255 bytes of the path a
  descriptor resolves to: its answer is the same when every link is cut to 255 bytes. So
  for a configured target of more than 255 bytes the matcher answers no-match for every
  descriptor, and in a process whose \<^verbatim>\<open>V4L2_HDR_SHIM_DEVICE\<close> is such a path every call
  forwards its payload as received.
\<close>

theorem long_target_never_matches:
  assumes "255 < strlen t"
  shows "(target_dev s = Some t \<longrightarrow> \<not> should_patch_fd w s fd)
       \<and> should_patch_fd (w\<lparr>link_of := \<lambda>path. map_option (take 255) (link_of w path)\<rparr>) s fd
           = should_patch_fd w s fd
       \<and> (s \<in> reachable H w \<and> dlsym_next w = Some f
            \<and> getenv w ''V4L2_HDR_SHIM_DEVICE'' = Some t
          \<longrightarrow> (\<exists>s'. ioctl H w s fd request arg = Inr (s', arg, f fd request arg)))"
proof (intro conjI impI)
  assume "target_dev s = Some t"
  with assms show "\<not> should_patch_fd w s fd"
    by (rule long_target_no_match)
next
  show "should_patch_fd (w\<lparr>link_of := \<lambda>path. map_option (take 255) (link_of w path)\<rparr>) s fd
          = should_patch_fd w s fd"
    by (auto simp: should_patch_fd_eq split: option.splits)
next
  assume h: "s \<in> reachable H w \<and> dlsym_next w = Some f
               \<and> getenv w ''V4L2_HDR_SHIM_DEVICE'' = Some t"
  show "\<exists>s'. ioctl H w s fd request arg = Inr (s', arg, f fd request arg)"
  proof (cases "affirmative (getenv w ''V4L2_HDR_SHIM_DISABLE'')")
    case True
    with h show ?thesis
      by (simp add: ioctl_reachable Let_def split: option.splits)
  next
    case False
    from assms have "c_str t \<noteq> []"
      by (auto simp: strlen_def)
    then have "device_or_empty (Some t) = t"
      by (cases t) (auto simp: device_or_empty_def c_str_def)
    with h False have "target_dev (ready_state w) = Some t"
      by (simp add: target_of_ready_state)
    with assms have "\<not> should_patch_fd w (ready_state w) fd"
      by (rule long_target_no_match)
    with h show ?thesis
      by (simp add: ioctl_reachable Let_def split: option.splits)
  qed
qed

theorem long_target_never_matches_witness:
  "255 < strlen (replicate 256 CHR ''a'')
   \<and> \<not> should_patch_fd
         (world_of (Some kernel_stub) None (Some (replicate 256 CHR ''a''))
            (replicate 256 CHR ''a''))
         (ready_state (world_of (Some kernel_stub) None (Some (replicate 256 CHR ''a''))
            (replicate 256 CHR ''a''))) 5
   \<and> (\<exists>s'. ioctl linux_videodev2
              (world_of (Some kernel_stub) None (Some (replicate 256 CHR ''a''))
                 (replicate 256 CHR ''a''))
              shim_state0 5 (VIDIOC_S_FMT linux_videodev2) (Some (nv12_format 2))
            = Inr (s', Some (nv12_format 2), 5))"
proof -
  let ?t = "replicate 256 CHR ''a''"
  let ?w = "world_of (Some kernel_stub) None (Some ?t) ?t"
  have len: "255 < strlen ?t"
    by (simp add: strlen_def c_str_replicate NUL_def)
  have r: "shim_state0 \<in> reachable linux_videodev2 ?w"
    by (rule reachable.start)
  have d: "dlsym_next ?w = Some kernel_stub"
    by (simp add: world_of_def)
  have g: "getenv ?w ''V4L2_HDR_SHIM_DEVICE'' = Some ?t"
    by (simp add: world_of_def)
  have "device_or_empty (Some ?t) = ?t"
    by (rule device_or_empty_Some) (simp_all add: NUL_def)
  with g have dev: "device_or_empty (getenv ?w ''V4L2_HDR_SHIM_DEVICE'') = ?t"
    by simp
  have "\<not> affirmative (getenv ?w ''V4L2_HDR_SHIM_DISABLE'')"
    by (simp add: world_of_def affirmative_def)
  then have tgt: "target_dev (ready_state ?w) = Some ?t"
    using dev by (simp add: target_of_ready_state)
  from long_target_never_matches [OF len, where s = "ready_state ?w" and w = ?w and fd = 5]
    tgt
  have m: "\<not> should_patch_fd ?w (ready_state ?w) 5"
    by blast
  from long_target_never_matches [OF len, where s = shim_state0 and w = ?w and fd = 5
      and H = linux_videodev2 and f = kernel_stub
      and request = "VIDIOC_S_FMT linux_videodev2" and arg = "Some (nv12_format 2)"] r d g
  have "\<exists>s'. ioctl linux_videodev2 ?w shim_state0 5 (VIDIOC_S_FMT linux_videodev2)
               (Some (nv12_format 2))
            = Inr (s', Some (nv12_format 2), 5)"
    by (simp add: kernel_stub_def)
  with len m show ?thesis
    by (intro conjI)
qed

subsection \<open>The disable switch\<close>

lemma run_disabled:
  assumes "affirmative (getenv w ''V4L2_HDR_SHIM_DISABLE'')" and "dlsym_next w = Some f"
  shows "s \<in> reachable H w \<Longrightarrow>
         run H w s cs = map (\<lambda>(fd, request, arg). Forwarded fd request arg (f fd request arg)) cs"
proof (induction cs arbitrary: s)
  case Nil
  show ?case by simp
next
  case (Cons c cs)
  obtain fd request arg where c: "c = (fd, request, arg)"
    by (cases c)
  from Cons.prems assms have io:
    "ioctl H w s fd request arg = Inr (ready_state w, arg, f fd request arg)"
    by (simp add: ioctl_reachable Let_def split: option.splits)
  with Cons.prems have "ready_state w \<in> reachable H w"
    by (rule reachable.call)
  then have "run H w (ready_state w) cs
               = map (\<lambda>(fd, request, arg). Forwarded fd request arg (f fd request arg)) cs"
    by (rule Cons.IH)
  with io c show ?case by simp
qed

lemma run_lookup_failed:
  "dlsym_next w = None \<Longrightarrow> run H w shim_state0 (c # cs) = [Terminated (Abort diag)]"
  by (cases c) (simp add: ioctl_reachable [OF reachable.start])

text \<open>
  Claim C5. If \<^verbatim>\<open>V4L2_HDR_SHIM_DISABLE\<close> holds an affirmative value (one that starts with
  the character 1, the test of the source) when the first call initialises the shim, then
  every call of the process, whatever its request code, payload type and descriptor,
  reaches the real dispatch function with its payload as received and returns that
  function's result. (Where the lookup of the real function fails, the first call ends the
  process and no payload is touched either.)
\<close>

theorem disabled_shim_is_pass_through:
  assumes "affirmative (getenv w ''V4L2_HDR_SHIM_DISABLE'')"
  shows "run H w shim_state0 calls =
           (case dlsym_next w of
              None \<Rightarrow> if calls = [] then [] else [Terminated (Abort diag)]
            | Some f \<Rightarrow>
                map (\<lambda>(fd, request, arg). Forwarded fd request arg (f fd request arg)) calls)"
proof (cases "dlsym_next w")
  case None
  then show ?thesis
    by (cases calls) (simp_all add: run_lookup_failed)
next
  case (Some f)
  with run_disabled [OF assms Some reachable.start, of H calls] show ?thesis
    by simp
qed

theorem disabled_shim_is_pass_through_witness:
  "affirmative (getenv (world_of (Some kernel_stub) (Some ''1'') (Some ''/dev/video5'')
                  ''/dev/video5'') ''V4L2_HDR_SHIM_DISABLE'')
   \<and> run linux_videodev2
        (world_of (Some kernel_stub) (Some ''1'') (Some ''/dev/video5'') ''/dev/video5'')
        shim_state0
        [(5, VIDIOC_S_FMT linux_videodev2, Some (nv12_format 2)),
         (5, VIDIOC_S_FMT linux_videodev2, Some (nv12_format 2)),
         (7, 0xC0D05604, None)]
      = [Forwarded 5 (VIDIOC_S_FMT linux_videodev2) (Some (nv12_format 2)) 5,
         Forwarded 5 (VIDIOC_S_FMT linux_videodev2) (Some (nv12_format 2)) 5,
         Forwarded 7 0xC0D05604 None 7]"
proof -
  let ?w = "world_of (Some kernel_stub) (Some ''1'') (Some ''/dev/video5'') ''/dev/video5''"
  have a: "affirmative (getenv ?w ''V4L2_HDR_SHIM_DISABLE'')"
    by (simp add: world_of_def affirmative_def)
  have d: "dlsym_next ?w = Some kernel_stub"
    by (simp add: world_of_def)
  from disabled_shim_is_pass_through [OF a, of linux_videodev2
      "[(5, VIDIOC_S_FMT linux_videodev2, Some (nv12_format 2)),
        (5, VIDIOC_S_FMT linux_videodev2, Some (nv12_format 2)),
        (7, 0xC0D05604, None)]"]
  have "run linux_videodev2 ?w shim_state0
        [(5, VIDIOC_S_FMT linux_videodev2, Some (nv12_format 2)),
         (5, VIDIOC_S_FMT linux_videodev2, Some (nv12_format 2)),
         (7, 0xC0D05604, None)]
      = [Forwarded 5 (VIDIOC_S_FMT linux_videodev2) (Some (nv12_format 2)) 5,
         Forwarded 5 (VIDIOC_S_FMT linux_videodev2) (Some (nv12_format 2)) 5,
         Forwarded 7 0xC0D05604 None 7]"
    unfolding d option.case by (simp add: kernel_stub_def)
  with a show ?thesis
    by (rule conjI)
qed

subsection \<open>A failed lookup\<close>

text \<open>
  Claim C8. If \<^verbatim>\<open>dlsym(RTLD_NEXT, "ioctl")\<close> yields \<^verbatim>\<open>NULL\<close>, initialisation aborts the
  process after the diagnostic; the first intercepted call therefore ends the process, and
  no call is ever forwarded: the run of any sequence of calls is the termination alone.
\<close>

theorem failed_lookup_terminates_process:
  assumes "dlsym_next w = None"
  shows "shim_init w shim_state0 = Inl (Abort diag)
       \<and> ioctl H w shim_state0 fd request arg = Inl (Abort diag)
       \<and> run H w shim_state0 ((fd, request, arg) # calls) = [Terminated (Abort diag)]"
  using assms
  by (simp add: shim_init_first ioctl_reachable [OF reachable.start] run_lookup_failed)

theorem failed_lookup_terminates_process_witness:
  "dlsym_next (world_of None None None []) = None
   \<and> run linux_videodev2 (world_of None None None []) shim_state0
        [(5, VIDIOC_S_FMT linux_videodev2, Some (nv12_format 2)), (5, 0xC0D05604, None)]
      = [Terminated
           (Abort (''[v4l2-hdr-shim] FATAL: cannot resolve ioctl via RTLD_NEXT'' @ [CHR 0x0A]))]"
proof -
  have d: "dlsym_next (world_of None None None []) = None"
    by (simp add: world_of_def)
  from failed_lookup_terminates_process [OF d, of linux_videodev2 5
      "VIDIOC_S_FMT linux_videodev2" "Some (nv12_format 2)" "[(5, 0xC0D05604, None)]"]
  have "run linux_videodev2 (world_of None None None []) shim_state0
        [(5, VIDIOC_S_FMT linux_videodev2, Some (nv12_format 2)), (5, 0xC0D05604, None)]
      = [Terminated
           (Abort (''[v4l2-hdr-shim] FATAL: cannot resolve ioctl via RTLD_NEXT'' @ [CHR 0x0A]))]"
    by (simp add: diag_def)
  with d show ?thesis
    by (rule conjI)
qed

subsection \<open>Initialisation under concurrent first calls\<close>

lemma sys_step_halted: "halted S \<Longrightarrow> sys_step H w S i = S"
  by (simp add: sys_step_def)

lemma sys_step_solo:
  "sys_step H w \<lparr>statics = s, dlsym_calls = n, halted = False, threads = [(c, p)]\<rparr> 0
     = \<lparr>statics = fst (thread_step H w c s p),
        dlsym_calls = (if is_dlsym p then Suc n else n),
        halted = is_crashed (snd (thread_step H w c s p)),
        threads = [(c, snd (thread_step H w c s p))]\<rparr>"
  by (simp add: sys_step_def Let_def case_prod_beta)

lemma exec_Cons: "exec H w (i # sched) S = exec H w sched (sys_step H w S i)"
  by (simp add: exec_def)

lemma exec_Nil: "exec H w [] S = S"
  by (simp add: exec_def)

lemma is_crashed_simps:
  "\<not> is_crashed At_check" "\<not> is_crashed At_set_done" "\<not> is_crashed At_dlsym"
  "\<not> is_crashed At_disable" "\<not> is_crashed At_device" "\<not> is_crashed At_body"
  "\<not> is_crashed (Returned a r)" "is_crashed (Crashed e)"
  by (simp_all add: is_crashed_def)

lemma is_dlsym_simps:
  "\<not> is_dlsym At_check" "\<not> is_dlsym At_set_done" "is_dlsym At_dlsym"
  "\<not> is_dlsym At_disable" "\<not> is_dlsym At_device" "\<not> is_dlsym At_body"
  "\<not> is_dlsym (Returned a r)" "\<not> is_dlsym (Crashed e)"
  by (simp_all add: is_dlsym_def)

lemma outcome_solo:
  "outcome \<lparr>statics = s, dlsym_calls = n, halted = h, threads = [(c, p)]\<rparr> 0
     = (case p of Returned a r \<Rightarrow> Some (Inr (s, a, r)) | Crashed e \<Rightarrow> Some (Inl e)
        | _ \<Rightarrow> None)"
  by (cases p) (simp_all add: outcome_def)

text \<open>A thread that runs alone does what the sequential \<open>ioctl\<close> does.\<close>

lemma solo_thread_is_ioctl:
  "outcome (exec H w [0, 0, 0, 0, 0, 0] (boot s [(fd, request, arg)])) 0
     = Some (ioctl H w s fd request arg)"
proof (cases "shim_init_done s")
  case True
  then show ?thesis
    by (cases "real_ioctl s")
       (simp_all add: exec_Cons exec_Nil sys_step_solo sys_step_halted is_crashed_simps
          is_dlsym_simps outcome_solo boot_def ioctl_def shim_init_def Let_def)
next
  case False
  show ?thesis
  proof (cases "dlsym_next w")
    case None
    with False show ?thesis
      by (simp add: exec_Cons exec_Nil sys_step_solo sys_step_halted is_crashed_simps
          is_dlsym_simps outcome_solo boot_def ioctl_def shim_init_def Let_def)
  next
    case (Some f)
    with False show ?thesis
      by (cases "affirmative (getenv w ''V4L2_HDR_SHIM_DISABLE'')")
         (simp_all add: exec_Cons exec_Nil sys_step_solo sys_step_halted is_crashed_simps
            is_dlsym_simps outcome_solo boot_def ioctl_def shim_init_def Let_def)
  qed
qed

text \<open>
  Claim C9 does not hold of the code. With two threads making the first calls of the
  process, the schedule in which thread 0 tests and sets \<^verbatim>\<open>shim_init_done\<close> and thread 1
  then runs lets thread 1 skip initialisation and call through a \<^verbatim>\<open>real_ioctl\<close> that is
  still \<^verbatim>\<open>NULL\<close>: it observes a configuration that is only partly initialised. The
  schedule in which both threads test the flag before either sets it resolves the symbol
  twice. And where thread 0 is interrupted between the lookup and the disable switch, thread
  1 patches its payload in a process whose \<^verbatim>\<open>V4L2_HDR_SHIM_DISABLE\<close> is 1.
\<close>

theorem concurrent_first_calls_race:
  "outcome (exec H w [0, 0, 1, 1] (boot shim_state0 [c0, (fd, request, arg)])) 1
     = Some (Inl NullCall)
   \<and> dlsym_calls (exec linux_videodev2 (world_of (Some kernel_stub) None None [])
        [0, 1, 0, 1, 0, 1] (boot shim_state0 [c0, c1])) = 2
   \<and> (\<exists>s'. outcome (exec linux_videodev2 (world_of (Some kernel_stub) (Some ''1'') None [])
          [0, 0, 0, 1, 1]
          (boot shim_state0 [c0, (9, VIDIOC_S_FMT linux_videodev2, Some (nv12_format 2))])) 1
        = Some (Inr (s',
             Some ((nv12_format 2)\<lparr>fmt_pix := (fmt_pix (nv12_format 2))
                     \<lparr>colorspace := 10, xfer_func := 7, ycbcr_enc := 6,
                      quantization := 2\<rparr>\<rparr>),
             9)))"
  by (simp add: exec_def boot_def sys_step_def outcome_def shim_state0_def world_of_def
        is_crashed_def is_dlsym_def should_patch_fd_def patch_def linux_videodev2_def
        kernel_stub_def nv12_format_def Let_def)

end
